theory Spec2Isabelle
  imports
    Main
    "HOL-Library.List_Lexorder"
    "HOL-Library.Product_Lexorder"
    "HOL-Library.Multiset"
    "HOL-Library.Sublist"
begin

section \<open>Python strings\<close>

text \<open>
  A Python \<open>str\<close> is a sequence of Unicode code points, and \<open>len\<close> counts code points.
  It is modelled as a list of code points; \<open>u\<close> turns an ASCII literal into one. The
  order on lists of \<open>HOL-Library.List_Lexorder\<close> is Python's order on strings, and the
  order on pairs of \<open>HOL-Library.Product_Lexorder\<close> is Python's order on 2-tuples.
\<close>

type_synonym ustr = "nat list"

definition u :: "string \<Rightarrow> ustr" where
  "u s = map of_char s"

text \<open>Truth value of \<open>d.get(k)\<close> for a string-valued field: \<open>None\<close> and \<open>""\<close> are falsy.\<close>

fun truthy :: "ustr option \<Rightarrow> bool" where
  "truthy None = False"
| "truthy (Some s) = (s \<noteq> [])"

text \<open>Python's \<open>a or b\<close>: the first operand if it is truthy, otherwise the second.\<close>

definition py_or :: "ustr option \<Rightarrow> ustr option \<Rightarrow> ustr option" where
  "py_or a b = (if truthy a then a else b)"

text \<open>\<open>x or ""\<close> where \<open>x\<close> is a string or \<open>None\<close>.\<close>

fun or_empty :: "ustr option \<Rightarrow> ustr" where
  "or_empty None = []"
| "or_empty (Some s) = s"

text \<open>The code points that \<open>str.strip()\<close> removes (\<open>str.isspace\<close>).\<close>

definition is_space :: "nat \<Rightarrow> bool" where
  "is_space c \<longleftrightarrow>
     (9 \<le> c \<and> c \<le> 13) \<or> (28 \<le> c \<and> c \<le> 32) \<or> c = 133 \<or> c = 160 \<or> c = 5760 \<or>
     (8192 \<le> c \<and> c \<le> 8202) \<or> c = 8232 \<or> c = 8233 \<or> c = 8239 \<or> c = 8287 \<or> c = 12288"

definition lstrip :: "ustr \<Rightarrow> ustr" where
  "lstrip s = dropWhile is_space s"

definition rstrip :: "ustr \<Rightarrow> ustr" where
  "rstrip s = rev (dropWhile is_space (rev s))"

definition strip :: "ustr \<Rightarrow> ustr" where
  "strip s = rstrip (lstrip s)"

text \<open>\<open>s.lstrip(chars)\<close> for a one-character argument.\<close>

definition lstrip_char :: "nat \<Rightarrow> ustr \<Rightarrow> ustr" where
  "lstrip_char c s = dropWhile (\<lambda>d. d = c) s"

definition startswith :: "ustr \<Rightarrow> ustr \<Rightarrow> bool" where
  "startswith s p \<longleftrightarrow> take (length p) s = p"

text \<open>\<open>sub in s\<close>: \<open>sub\<close> occurs in \<open>s\<close> as a contiguous substring.\<close>

fun contains :: "ustr \<Rightarrow> ustr \<Rightarrow> bool" where
  "contains sub [] = (sub = [])"
| "contains sub (c # cs) = (startswith (c # cs) sub \<or> contains sub cs)"

text \<open>
  \<open>s.replace(old, new)\<close>: the non-overlapping occurrences of \<open>old\<close> are replaced from the
  left. The recursion carries the number of characters still to be copied from a match
  that has just been replaced.
\<close>

fun replace_from :: "ustr \<Rightarrow> ustr \<Rightarrow> nat \<Rightarrow> ustr \<Rightarrow> ustr" where
  "replace_from old new k [] = []"
| "replace_from old new (Suc k) (c # cs) = replace_from old new k cs"
| "replace_from old new 0 (c # cs) =
     (if startswith (c # cs) old
      then new @ replace_from old new (length old - 1) cs
      else c # replace_from old new 0 cs)"

definition replace :: "ustr \<Rightarrow> ustr \<Rightarrow> ustr \<Rightarrow> ustr" where
  "replace old new s =
     (if old = [] then new @ concat (map (\<lambda>c. c # new) s)
      else replace_from old new 0 s)"

text \<open>\<open>sep.join(xs)\<close>.\<close>

fun join :: "ustr \<Rightarrow> ustr list \<Rightarrow> ustr" where
  "join sep [] = []"
| "join sep [x] = x"
| "join sep (x # y # ys) = x @ sep @ join sep (y # ys)"

text \<open>
  \<open>s.split(sep, 1)\<close> for a one-character separator that occurs in \<open>s\<close>: the text before
  the first separator and the text after it.
\<close>

definition split1 :: "nat \<Rightarrow> ustr \<Rightarrow> ustr \<times> ustr" where
  "split1 sep s = (takeWhile (\<lambda>c. c \<noteq> sep) s, drop 1 (dropWhile (\<lambda>c. c \<noteq> sep) s))"

section \<open>Items\<close>

text \<open>
  An item is the dictionary the fetcher builds for one piece of content. A field holds
  \<open>None\<close> where the dictionary has no such key or holds \<open>None\<close> (\<open>dict.get\<close> does not
  tell them apart). \<open>metrics\<close> is the metrics object as an association list.
\<close>

record item =
  item_id :: "ustr option"
  item_text :: "ustr option"
  item_author :: "ustr option"
  item_username :: "ustr option"
  item_url :: "ustr option"
  item_created_at :: "ustr option"
  item_metrics :: "(ustr \<times> int) list"
  item_engagement_score :: int
  item_source :: "ustr option"

subsection \<open>\<open>_dedupe\<close>\<close>

text \<open>\<open>item.get("url") or item.get("id") or item.get("text")\<close>\<close>

definition dedupe_key :: "item \<Rightarrow> ustr option" where
  "dedupe_key i = py_or (py_or (item_url i) (item_id i)) (item_text i)"

text \<open>The loop of \<open>_dedupe\<close>, with its two variables \<open>seen\<close> and \<open>deduped\<close>.\<close>

fun dedupe_loop :: "ustr option set \<Rightarrow> item list \<Rightarrow> item list \<Rightarrow> item list" where
  "dedupe_loop seen deduped [] = deduped"
| "dedupe_loop seen deduped (i # items) =
     (let key = dedupe_key i in
      if \<not> truthy key \<or> key \<in> seen then dedupe_loop seen deduped items
      else dedupe_loop (insert key seen) (deduped @ [i]) items)"

definition dedupe :: "item list \<Rightarrow> item list" where
  "dedupe items = dedupe_loop {} [] items"

section \<open>The standard library and the outside world\<close>

text \<open>
  Python's \<open>datetime\<close>: an instant is a number of microseconds since
  0001-01-01T00:00:00 UTC. A parsed timestamp is offset-aware (its UTC instant is known)
  or offset-naive (wall-clock fields only). \<open>datetime.max\<close> is
  9999-12-31T23:59:59.999999.
\<close>

datatype datetime = Naive int | Aware int

datatype py_error = OverflowError | TypeError | Exception ustr

definition datetime_max :: int where
  "datetime_max = 315537897599999999"

text \<open>
  \<open>datetime.now(timezone.utc) - timedelta(hours=h)\<close>: raises \<open>OverflowError\<close> when the
  result is not a representable datetime.
\<close>

definition minus_hours :: "int \<Rightarrow> int \<Rightarrow> py_error + int" where
  "minus_hours now h =
     (let t = now - h * 3600000000
      in if t < 0 \<or> datetime_max < t then Inl OverflowError else Inr t)"

text \<open>
  The library functions whose definition is not part of the repository are parameters
  of the model: \<open>str.lower\<close>, \<open>datetime.fromisoformat\<close> (\<open>None\<close> is \<open>ValueError\<close>),
  \<open>datetime.isoformat\<close> of an offset-aware UTC instant, and \<open>html.unescape\<close>.
\<close>

record stdlib =
  str_lower :: "ustr \<Rightarrow> ustr"
  fromisoformat :: "ustr \<Rightarrow> datetime option"
  isoformat :: "int \<Rightarrow> ustr"
  unescape :: "ustr \<Rightarrow> ustr"

subsection \<open>Tweets and the API payload\<close>

record user =
  user_id :: "ustr option"
  user_username :: "ustr option"
  user_name :: "ustr option"

record tweet =
  tweet_id :: "ustr option"
  tweet_text :: "ustr option"
  tweet_author_id :: "ustr option"
  tweet_created_at :: "ustr option"
  tweet_public_metrics :: "(ustr \<times> int) list"

text \<open>
  The decoded response of the search endpoint: \<open>includes.users\<close>, \<open>data\<close> and \<open>errors\<close>,
  each empty when the key is missing.
\<close>

record payload =
  payload_users :: "user list"
  payload_data :: "tweet list"
  payload_errors :: "ustr list"

text \<open>
  What a call of \<open>_fetch_recent\<close> ends in: the decoded payload, or one of the exceptions
  \<open>main\<close> catches (\<open>HTTPError\<close> with its status code as text and its body, \<open>URLError\<close>
  with its reason, \<open>TimeoutError\<close>), or any other exception.
\<close>

datatype fetch_result =
    Payload payload
  | HTTPError ustr ustr
  | URLError ustr
  | TimeoutError
  | Other_exception ustr

record feed =
  feed_label :: ustr
  feed_url :: ustr

text \<open>
  The world of one invocation: the environment variable, the files, the clock and the
  network. Fetching and parsing a feed (\<open>_fetch_account_feed\<close>, and \<open>_fetch_url\<close> with
  \<open>_parse_feed\<close> inside \<open>_fetch_feed\<close>) ends in the parsed items or in an exception,
  given here with its message.
\<close>

record world =
  environ_X_BEARER_TOKEN :: "ustr option"
  read_lines :: "ustr \<Rightarrow> ustr list option"
  now_utc :: int
  fetch_recent :: "ustr \<Rightarrow> ustr \<Rightarrow> ustr \<Rightarrow> int \<Rightarrow> fetch_result"
  fetch_account_feed :: "ustr \<Rightarrow> int \<Rightarrow> ustr + item list"
  fetch_and_parse_feed :: "feed \<Rightarrow> int \<Rightarrow> ustr + item list"

section \<open>The trend fetcher\<close>

subsection \<open>Input lists\<close>

definition load_keywords :: "world \<Rightarrow> ustr \<Rightarrow> ustr list" where
  "load_keywords w path =
     (case read_lines w path of
        None \<Rightarrow> []
      | Some ls \<Rightarrow> filter (\<lambda>line. line \<noteq> [] \<and> \<not> startswith line (u ''#'')) (map strip ls))"

definition load_exclude_keywords :: "stdlib \<Rightarrow> world \<Rightarrow> ustr \<Rightarrow> ustr list" where
  "load_exclude_keywords L w path = map (str_lower L) (load_keywords w path)"

definition load_accounts :: "world \<Rightarrow> ustr \<Rightarrow> ustr list" where
  "load_accounts w path =
     (case read_lines w path of
        None \<Rightarrow> []
      | Some ls \<Rightarrow> filter (\<lambda>raw. raw \<noteq> [] \<and> \<not> startswith raw (u ''#'')) (map strip ls))"

definition parse_feed_line :: "ustr \<Rightarrow> feed" where
  "parse_feed_line raw =
     (if contains (u ''|'') raw
      then (case split1 124 raw of (l, r) \<Rightarrow> \<lparr>feed_label = strip l, feed_url = strip r\<rparr>)
      else \<lparr>feed_label = [], feed_url = raw\<rparr>)"

definition load_feeds :: "world \<Rightarrow> ustr \<Rightarrow> feed list" where
  "load_feeds w path =
     (case read_lines w path of
        None \<Rightarrow> []
      | Some ls \<Rightarrow>
          map parse_feed_line
            (filter (\<lambda>raw. raw \<noteq> [] \<and> \<not> startswith raw (u ''#'')) (map strip ls)))"

definition normalize_account :: "ustr \<Rightarrow> ustr" where
  "normalize_account raw = replace (u '' '') [] (lstrip_char 64 (strip raw))"

subsection \<open>The query\<close>

definition quote_keyword :: "ustr \<Rightarrow> ustr" where
  "quote_keyword keyword =
     (let cleaned = strip (replace [34] [] keyword)
      in if cleaned = [] then [] else [34] @ cleaned @ [34])"

definition build_query :: "ustr list \<Rightarrow> ustr" where
  "build_query keywords =
     (let quoted = map quote_keyword (filter (\<lambda>k. strip k \<noteq> []) keywords);
          quoted = filter (\<lambda>q. q \<noteq> []) quoted
      in if quoted = [] then []
         else u ''('' @ join (u '' OR '') quoted @ u '') -is:retweet -is:reply'')"

definition start_time_iso :: "stdlib \<Rightarrow> int \<Rightarrow> int \<Rightarrow> py_error + ustr" where
  "start_time_iso L now since_hours =
     (case minus_hours now since_hours of
        Inl e \<Rightarrow> Inl e
      | Inr start \<Rightarrow>
          Inr (replace (u ''+00:00'') (u ''Z'') (isoformat L (start - start mod 1000000))))"

subsection \<open>Sorting\<close>

text \<open>
  \<open>items.sort(key=k, reverse=True)\<close>: the list is reversed, sorted by a stable ascending
  sort and reversed again, so that items with equal keys keep their order.
\<close>

definition sort_reverse :: "('a \<Rightarrow> 'k::linorder) \<Rightarrow> 'a list \<Rightarrow> 'a list" where
  "sort_reverse k xs = rev (sort_key k (rev xs))"

subsection \<open>\<open>_build_items\<close>\<close>

text \<open>\<open>metrics.get(name, 0)\<close>\<close>

definition metric :: "(ustr \<times> int) list \<Rightarrow> ustr \<Rightarrow> int" where
  "metric m name = (case map_of m name of None \<Rightarrow> 0 | Some v \<Rightarrow> v)"

text \<open>
  \<open>users.get(author_id)\<close> in the dictionary \<open>{u.get("id"): u for u in users}\<close>: a later
  user replaces an earlier one with the same id.
\<close>

definition users_get :: "user list \<Rightarrow> ustr option \<Rightarrow> user option" where
  "users_get users k = find (\<lambda>x. user_id x = k) (rev users)"

text \<open>An optional string inside an f-string: \<open>None\<close> is printed as \<open>None\<close>.\<close>

fun format_opt :: "ustr option \<Rightarrow> ustr" where
  "format_opt None = u ''None''"
| "format_opt (Some s) = s"

definition build_item :: "user list \<Rightarrow> tweet \<Rightarrow> item" where
  "build_item users t =
     (let metrics = tweet_public_metrics t;
          engagement = metric metrics (u ''like_count'') + metric metrics (u ''retweet_count'')
            + metric metrics (u ''reply_count'') + metric metrics (u ''quote_count'');
          usr = users_get users (tweet_author_id t);
          username = (case usr of None \<Rightarrow> None | Some x \<Rightarrow> user_username x);
          name = (case usr of None \<Rightarrow> None | Some x \<Rightarrow> user_name x);
          url = (if truthy username
                 then u ''https://x.com/'' @ format_opt username @ u ''/status/''
                        @ format_opt (tweet_id t)
                 else u ''https://x.com/i/web/status/'' @ format_opt (tweet_id t))
      in \<lparr>item_id = tweet_id t,
          item_text = tweet_text t,
          item_author = py_or (py_or name username) (Some (u ''unknown'')),
          item_username = username,
          item_url = Some url,
          item_created_at = tweet_created_at t,
          item_metrics = metrics,
          item_engagement_score = engagement,
          item_source = None\<rparr>)"

definition engagement_key :: "item \<Rightarrow> int \<times> ustr" where
  "engagement_key i = (item_engagement_score i, or_empty (item_created_at i))"

definition build_items :: "payload \<Rightarrow> item list" where
  "build_items p =
     sort_reverse engagement_key (map (build_item (payload_users p)) (payload_data p))"

subsection \<open>Filters\<close>

text \<open>The loop of \<open>_filter_since\<close>; comparing a naive datetime with the cutoff raises.\<close>

fun filter_since_loop :: "stdlib \<Rightarrow> int \<Rightarrow> item list \<Rightarrow> item list \<Rightarrow> py_error + item list" where
  "filter_since_loop L cutoff filtered [] = Inr filtered"
| "filter_since_loop L cutoff filtered (i # items) =
     (if \<not> truthy (item_created_at i) then filter_since_loop L cutoff filtered items
      else case fromisoformat L (replace (u ''Z'') (u ''+00:00'') (or_empty (item_created_at i))) of
        None \<Rightarrow> filter_since_loop L cutoff filtered items
      | Some (Naive t) \<Rightarrow> Inl TypeError
      | Some (Aware created_dt) \<Rightarrow>
          if created_dt \<ge> cutoff then filter_since_loop L cutoff (filtered @ [i]) items
          else filter_since_loop L cutoff filtered items)"

definition filter_since :: "stdlib \<Rightarrow> int \<Rightarrow> item list \<Rightarrow> int \<Rightarrow> py_error + item list" where
  "filter_since L now items since_hours =
     (case minus_hours now since_hours of
        Inl e \<Rightarrow> Inl e
      | Inr cutoff \<Rightarrow> filter_since_loop L cutoff [] items)"

definition filter_excluded :: "stdlib \<Rightarrow> item list \<Rightarrow> ustr list \<Rightarrow> item list" where
  "filter_excluded L items exclude_keywords =
     (if exclude_keywords = [] then items
      else filter (\<lambda>i. \<not> list_ex (\<lambda>k. contains k (str_lower L (or_empty (item_text i))))
                          exclude_keywords) items)"

subsection \<open>\<open>_source_weight\<close>\<close>

definition official_keywords :: "ustr list" where
  "official_keywords =
     [u ''openai'', u ''anthropic'', u ''deepmind'', u ''google'', u ''microsoft'',
      u ''cohere'', u ''hugging face'']"

definition source_weight :: "stdlib \<Rightarrow> item \<Rightarrow> int" where
  "source_weight L i =
     (let source = str_lower L (or_empty (py_or (item_source i) (item_author i)))
      in if contains (u ''karpathy'') source then 3
         else if list_ex (\<lambda>key. contains key source) official_keywords then 2
         else if contains (u ''arxiv'') source then 0
         else 1)"

definition weight_key :: "stdlib \<Rightarrow> item \<Rightarrow> int \<times> ustr" where
  "weight_key L i = (source_weight L i, or_empty (item_created_at i))"

subsection \<open>\<open>main\<close>\<close>

datatype mode = Auto | Keywords | Accounts | Feeds

record args =
  since_hours :: int
  limit :: int
  keywords_file :: ustr
  accounts_file :: ustr
  feeds_file :: ustr
  exclude_keywords_file :: ustr
  feed_timeout :: int
  max_feeds :: int
  mode :: mode

text \<open>\<open>xs[:k]\<close>: a negative bound counts from the end.\<close>

definition slice_to :: "int \<Rightarrow> 'a list \<Rightarrow> 'a list" where
  "slice_to k xs = (if 0 \<le> k then take (nat k) xs else take (nat (int (length xs) + k)) xs)"

text \<open>
  The JSON object written to standard output: an error payload with its optional
  \<open>details\<close>, or a batch. A batch has the keys of its mode (\<open>query\<close> and \<open>start_time\<close>,
  \<open>accounts\<close>, or \<open>feeds\<close>); \<open>errors\<close> and \<open>notice\<close> are present only when set.
\<close>

datatype details = No_details | Body ustr | Api_errors "ustr list"

record batch =
  batch_mode :: ustr
  batch_query :: "ustr option"
  batch_start_time :: "ustr option"
  batch_accounts :: "ustr list option"
  batch_feeds :: "ustr list option"
  batch_limit :: int
  batch_fetched :: nat
  batch_items :: "item list"
  batch_errors :: "(ustr \<times> ustr) list option"
  batch_notice :: "ustr option"

datatype stdout = Error_payload ustr details | Batch batch

text \<open>One call of the search endpoint, with the arguments \<open>_fetch_recent\<close> is given.\<close>

record api_call =
  call_query :: ustr
  call_start_time :: ustr
  call_bearer_token :: ustr
  call_max_results :: int

text \<open>
  A run of \<open>main\<close> yields the calls of the search endpoint it made and either the
  exception it died of or its exit code with the object it printed.
\<close>

type_synonym run = "api_call list \<times> (py_error + int \<times> stdout)"

definition no_results :: ustr where
  "no_results = u ''No results returned for this time window.''"

definition main_keywords :: "stdlib \<Rightarrow> world \<Rightarrow> args \<Rightarrow> ustr \<Rightarrow> run" where
  "main_keywords L w a token =
     (let keywords = load_keywords w (keywords_file a);
          query = build_query keywords
      in if query = [] then
           ([], Inr (2, Error_payload
              (u ''Keyword list is empty. Add keywords to references/keywords.txt.'') No_details))
         else case start_time_iso L (now_utc w) (since_hours a) of
           Inl e \<Rightarrow> ([], Inl e)
         | Inr start_time \<Rightarrow>
            (let max_results = max 50 (limit a * 5);
                 max_results = min 100 max_results;
                 call = \<lparr>call_query = query, call_start_time = start_time,
                         call_bearer_token = token, call_max_results = max_results\<rparr>
             in case fetch_recent w query start_time token max_results of
                  HTTPError code body \<Rightarrow>
                    ([call], Inr (3, Error_payload
                       (u ''X API request failed with status '' @ code @ u ''.'') (Body body)))
                | URLError reason \<Rightarrow>
                    ([call], Inr (3, Error_payload
                       (u ''Network error contacting X API: '' @ reason @ u ''.'') No_details))
                | TimeoutError \<Rightarrow>
                    ([call], Inr (3, Error_payload (u ''Timed out contacting X API.'') No_details))
                | Other_exception msg \<Rightarrow> ([call], Inl (Exception msg))
                | Payload p \<Rightarrow>
                    if payload_errors p \<noteq> [] then
                      ([call], Inr (3, Error_payload (u ''X API returned errors.'')
                         (Api_errors (payload_errors p))))
                    else
                      (let items = build_items p;
                           limited = slice_to (max (limit a) 0) items
                       in ([call], Inr (0, Batch
                            \<lparr>batch_mode = u ''keywords'',
                             batch_query = Some query,
                             batch_start_time = Some start_time,
                             batch_accounts = None,
                             batch_feeds = None,
                             batch_limit = limit a,
                             batch_fetched = length items,
                             batch_items = limited,
                             batch_errors = None,
                             batch_notice = (if limited = [] then Some no_results else None)\<rparr>)))))"

text \<open>The loop over the handles: a failing account is recorded and the loop goes on.\<close>

fun accounts_loop ::
  "world \<Rightarrow> int \<Rightarrow> item list \<Rightarrow> (ustr \<times> ustr) list \<Rightarrow> ustr list
     \<Rightarrow> item list \<times> (ustr \<times> ustr) list" where
  "accounts_loop w timeout items errors [] = (items, errors)"
| "accounts_loop w timeout items errors (handle # handles) =
     (case fetch_account_feed w handle timeout of
        Inr fetched \<Rightarrow> accounts_loop w timeout (items @ fetched) errors handles
      | Inl msg \<Rightarrow> accounts_loop w timeout items (errors @ [(handle, msg)]) handles)"

definition main_accounts :: "stdlib \<Rightarrow> world \<Rightarrow> args \<Rightarrow> run" where
  "main_accounts L w a =
     (let accounts = load_accounts w (accounts_file a)
      in if accounts = [] then
           ([], Inr (2, Error_payload
              (u ''Account list is empty. Add handles to references/accounts.txt.'') No_details))
         else
          (let normalized = map normalize_account accounts;
               normalized = filter (\<lambda>h. h \<noteq> []) normalized
           in if normalized = [] then
                ([], Inr (2, Error_payload
                   (u ''Account list contains no valid handles.'') No_details))
              else case accounts_loop w (feed_timeout a) [] [] normalized of
                (items, errors) \<Rightarrow>
                  (let exclude_keywords = load_exclude_keywords L w (exclude_keywords_file a);
                       items = filter_excluded L items exclude_keywords
                   in case filter_since L (now_utc w) items (since_hours a) of
                        Inl e \<Rightarrow> ([], Inl e)
                      | Inr items \<Rightarrow>
                         (let items = dedupe items;
                              items = sort_reverse (\<lambda>i. or_empty (item_created_at i)) items;
                              limited = slice_to (max (limit a) 0) items
                          in ([], Inr (0, Batch
                               \<lparr>batch_mode = u ''accounts'',
                                batch_query = None,
                                batch_start_time = None,
                                batch_accounts = Some normalized,
                                batch_feeds = None,
                                batch_limit = limit a,
                                batch_fetched = length items,
                                batch_items = limited,
                                batch_errors = (if errors = [] then None else Some errors),
                                batch_notice =
                                  (if limited = [] then Some no_results else None)\<rparr>))))))"

text \<open>\<open>_fetch_feed\<close>: the items of the feed and the label they were parsed under.\<close>

definition fetch_feed :: "world \<Rightarrow> feed \<Rightarrow> int \<Rightarrow> ustr + item list \<times> ustr" where
  "fetch_feed w f timeout =
     (let label = (if feed_label f \<noteq> [] then feed_label f else feed_url f)
      in case fetch_and_parse_feed w f timeout of
           Inl msg \<Rightarrow> Inl msg
         | Inr items \<Rightarrow> Inr (items, label))"

text \<open>The loop over the feeds: a feed without a url is skipped, a failing feed recorded.\<close>

fun feeds_loop ::
  "world \<Rightarrow> int \<Rightarrow> item list \<Rightarrow> (ustr \<times> ustr) list \<Rightarrow> ustr list \<Rightarrow> feed list
     \<Rightarrow> item list \<times> (ustr \<times> ustr) list \<times> ustr list" where
  "feeds_loop w timeout items errors used_labels [] = (items, errors, used_labels)"
| "feeds_loop w timeout items errors used_labels (f # feeds) =
     (if feed_url f = [] then feeds_loop w timeout items errors used_labels feeds
      else case fetch_feed w f timeout of
        Inr (feed_items, label) \<Rightarrow>
          feeds_loop w timeout (items @ feed_items) errors (used_labels @ [label]) feeds
      | Inl msg \<Rightarrow>
          feeds_loop w timeout items (errors @ [(feed_url f, msg)]) used_labels feeds)"

definition main_feeds :: "stdlib \<Rightarrow> world \<Rightarrow> args \<Rightarrow> run" where
  "main_feeds L w a =
     (let feeds = load_feeds w (feeds_file a)
      in if feeds = [] then
           ([], Inr (2, Error_payload
              (u ''Feed list is empty. Add RSS/Atom feeds to references/feeds.txt.'') No_details))
         else
          (let feeds = (if max_feeds a \<noteq> 0 \<and> max_feeds a > 0
                        then slice_to (max_feeds a) feeds else feeds)
           in case feeds_loop w (feed_timeout a) [] [] [] feeds of
             (items, errors, used_labels) \<Rightarrow>
               (let exclude_keywords = load_exclude_keywords L w (exclude_keywords_file a);
                    items = filter_excluded L items exclude_keywords
                in case filter_since L (now_utc w) items (since_hours a) of
                     Inl e \<Rightarrow> ([], Inl e)
                   | Inr items \<Rightarrow>
                      (let items = dedupe items;
                           items = sort_reverse (weight_key L) items;
                           limited = slice_to (max (limit a) 0) items
                       in ([], Inr (0, Batch
                            \<lparr>batch_mode = u ''feeds'',
                             batch_query = None,
                             batch_start_time = None,
                             batch_accounts = None,
                             batch_feeds = Some used_labels,
                             batch_limit = limit a,
                             batch_fetched = length items,
                             batch_items = limited,
                             batch_errors = (if errors = [] then None else Some errors),
                             batch_notice =
                               (if limited = [] then Some no_results else None)\<rparr>))))))"

definition main :: "stdlib \<Rightarrow> world \<Rightarrow> args \<Rightarrow> run" where
  "main L w a =
     (let token = environ_X_BEARER_TOKEN w
      in if (mode a = Auto \<or> mode a = Keywords) \<and> truthy token
         then main_keywords L w a (or_empty token)
         else if mode a = Accounts then main_accounts L w a
         else main_feeds L w a)"

text \<open>The \<open>items\<close> list of the object a run printed; empty when it printed no batch.\<close>

definition printed_items :: "run \<Rightarrow> item list" where
  "printed_items r = (case snd r of Inr (code, Batch b) \<Rightarrow> batch_items b | _ \<Rightarrow> [])"

section \<open>The article publisher: the digest\<close>

text \<open>
  \<open>re.sub(r"<[^>]+>", "", html)\<close>: at a \<open><\<close> that is followed by at least one
  character other than \<open>>\<close> and then, after all such characters, by a \<open>>\<close>, the tag is
  dropped and the scan goes on behind it; any other character is kept.
\<close>

function remove_tags :: "ustr \<Rightarrow> ustr" where
  "remove_tags [] = []"
| "remove_tags (c # cs) =
     (if c = 60 \<and> takeWhile (\<lambda>d. d \<noteq> 62) cs \<noteq> [] \<and> dropWhile (\<lambda>d. d \<noteq> 62) cs \<noteq> []
      then remove_tags (tl (dropWhile (\<lambda>d. d \<noteq> 62) cs))
      else c # remove_tags cs)"
  by pat_completeness auto
termination
proof (relation "measure length")
  show "wf (measure length)" by simp
next
  fix c :: nat and cs :: ustr
  have "length (tl (dropWhile (\<lambda>d. d \<noteq> 62) cs)) \<le> length cs"
    using length_dropWhile_le [of "\<lambda>d. d \<noteq> 62" cs] by simp
  then show "(tl (dropWhile (\<lambda>d. d \<noteq> 62) cs), c # cs) \<in> measure length" by simp
next
  fix c :: nat and cs :: ustr
  show "(cs, c # cs) \<in> measure length" by simp
qed

definition strip_tags :: "stdlib \<Rightarrow> ustr \<Rightarrow> ustr" where
  "strip_tags L html = strip (unescape L (remove_tags html))"

text \<open>The ellipsis character U+2026.\<close>

definition ellipsis :: ustr where
  "ellipsis = [8230]"

definition build_digest :: "stdlib \<Rightarrow> ustr \<Rightarrow> int \<Rightarrow> ustr" where
  "build_digest L html max_len =
     (let text = strip_tags L html
      in if int (length text) \<le> max_len then text
         else slice_to (max_len - 1) text @ ellipsis)"

section \<open>Example data\<close>

text \<open>
  A library instance for the examples. It agrees with Python on the inputs the examples
  use: \<open>str.lower\<close> on ASCII text, \<open>html.unescape\<close> on text without \<open>&\<close>, and
  \<open>fromisoformat\<close> and \<open>isoformat\<close> on the timestamps listed (2026-11-03T06:00:00 UTC
  is 63929282400000000 microseconds after 0001-01-01T00:00:00 UTC).
\<close>

definition ascii_lower :: "ustr \<Rightarrow> ustr" where
  "ascii_lower s = map (\<lambda>c. if 65 \<le> c \<and> c \<le> 90 then c + 32 else c) s"

definition example_fromisoformat :: "ustr \<Rightarrow> datetime option" where
  "example_fromisoformat s =
     (if s = u ''2026-11-03T06:00:00+00:00'' then Some (Aware 63929282400000000)
      else if s = u ''2026-11-03T06:00:00.500+00:00'' then Some (Aware 63929282400500000)
      else if s = u ''2026-11-01T06:00:00+00:00'' then Some (Aware 63929109600000000)
      else if s = u ''2026-11-03T06:00:00'' then Some (Naive 63929282400000000)
      else None)"

definition example_isoformat :: "int \<Rightarrow> ustr" where
  "example_isoformat t =
     (if t = 63929217600000000 then u ''2026-11-02T12:00:00+00:00'' else [])"

definition example_lib :: stdlib where
  "example_lib =
     \<lparr>str_lower = ascii_lower, fromisoformat = example_fromisoformat,
      isoformat = example_isoformat, unescape = (\<lambda>s. s)\<rparr>"

text \<open>An item of a feed with the given url, id, text, timestamp and source label.\<close>

definition feed_item ::
  "ustr option \<Rightarrow> ustr option \<Rightarrow> ustr option \<Rightarrow> ustr option \<Rightarrow> ustr option \<Rightarrow> item" where
  "feed_item url ident text created source =
     \<lparr>item_id = ident, item_text = text, item_author = source, item_username = None,
      item_url = url, item_created_at = created, item_metrics = [],
      item_engagement_score = 0, item_source = source\<rparr>"

text \<open>
  The files of the examples, as the lines Python reads (each ends in a newline). The
  last line of \<open>no_keywords.txt\<close> is two double quotes.
\<close>

definition example_files :: "ustr \<Rightarrow> ustr list option" where
  "example_files path =
     (if path = u ''keywords.txt'' then
        Some [u ''# topics'' @ [10], u ''LLM'' @ [10], u ''AI agents'' @ [10]]
      else if path = u ''no_keywords.txt'' then
        Some [u ''# nothing yet'' @ [10], u ''   '' @ [10], [34, 34, 10]]
      else if path = u ''accounts.txt'' then
        Some [u ''@karpathy'' @ [10], u '' sama '' @ [10]]
      else if path = u ''feeds.txt'' then
        Some [u ''Karpathy blog|https://karpathy.example/feed'' @ [10],
              u ''https://arxiv.example/rss'' @ [10],
              u ''Some blog|https://blog.example/rss'' @ [10],
              u ''OpenAI|https://openai.example/rss'' @ [10],
              u ''Google arXiv picks|https://picks.example/rss'' @ [10]]
      else None)"

definition example_users :: "user list" where
  "example_users =
     [\<lparr>user_id = Some (u ''7''), user_username = Some (u ''alice''),
       user_name = Some (u ''Alice'')\<rparr>]"

definition tweet_1 :: tweet where
  "tweet_1 =
     \<lparr>tweet_id = Some (u ''1''), tweet_text = Some (u ''agents''),
      tweet_author_id = Some (u ''7''),
      tweet_created_at = Some (u ''2026-11-03T06:00:00.000Z''),
      tweet_public_metrics = [(u ''like_count'', 3), (u ''retweet_count'', 2)]\<rparr>"

definition tweet_2 :: tweet where
  "tweet_2 =
     \<lparr>tweet_id = Some (u ''2''), tweet_text = Some (u ''models''),
      tweet_author_id = Some (u ''8''),
      tweet_created_at = Some (u ''2026-11-02T18:00:00.000Z''),
      tweet_public_metrics = [(u ''like_count'', 10)]\<rparr>"

definition tweet_3 :: tweet where
  "tweet_3 =
     \<lparr>tweet_id = Some (u ''3''), tweet_text = Some (u ''evals''),
      tweet_author_id = Some (u ''7''),
      tweet_created_at = Some (u ''2026-11-03T09:00:00.000Z''),
      tweet_public_metrics = [(u ''reply_count'', 4), (u ''quote_count'', 1)]\<rparr>"

text \<open>A response in which the search endpoint lists tweet 1 twice.\<close>

definition example_payload :: payload where
  "example_payload =
     \<lparr>payload_users = example_users, payload_data = [tweet_1, tweet_2, tweet_3, tweet_1],
      payload_errors = []\<rparr>"

text \<open>
  Two tweets with the same engagement score, posted half a second apart; the timestamp
  of the earlier one has no fractional seconds.
\<close>

definition tweet_4 :: tweet where
  "tweet_4 =
     \<lparr>tweet_id = Some (u ''4''), tweet_text = Some (u ''on the second''),
      tweet_author_id = Some (u ''7''),
      tweet_created_at = Some (u ''2026-11-03T06:00:00Z''),
      tweet_public_metrics = [(u ''like_count'', 1)]\<rparr>"

definition tweet_5 :: tweet where
  "tweet_5 =
     \<lparr>tweet_id = Some (u ''5''), tweet_text = Some (u ''half a second later''),
      tweet_author_id = Some (u ''7''),
      tweet_created_at = Some (u ''2026-11-03T06:00:00.500Z''),
      tweet_public_metrics = [(u ''like_count'', 1)]\<rparr>"

definition tie_payload :: payload where
  "tie_payload =
     \<lparr>payload_users = example_users, payload_data = [tweet_5, tweet_4],
      payload_errors = []\<rparr>"

definition example_account_feed :: "ustr \<Rightarrow> int \<Rightarrow> ustr + item list" where
  "example_account_feed handle timeout =
     (if handle = u ''karpathy'' then
        Inr [feed_item (Some (u ''https://nitter.net/karpathy/1'')) (Some (u ''https://nitter.net/karpathy/1''))
               (Some (u ''first'')) (Some (u ''2026-11-03T06:00:00+00:00'')) (Some (u ''karpathy'')),
             feed_item (Some (u ''https://nitter.net/karpathy/1'')) (Some (u ''https://nitter.net/karpathy/1''))
               (Some (u ''first again'')) (Some (u ''2026-11-03T06:00:00+00:00'')) (Some (u ''karpathy''))]
      else Inl (u ''curl failed with code 22''))"

definition example_feed :: "feed \<Rightarrow> int \<Rightarrow> ustr + item list" where
  "example_feed f timeout =
     (if feed_url f = u ''https://karpathy.example/feed'' then
        Inr [feed_item (Some (u ''https://karpathy.example/1'')) (Some (u ''https://karpathy.example/1''))
               (Some (u ''notes'')) (Some (u ''2026-11-03T06:00:00+00:00'')) (Some (u ''Karpathy blog''))]
      else if feed_url f = u ''https://arxiv.example/rss'' then
        Inr [feed_item (Some (u ''https://arxiv.example/1'')) (Some (u ''https://arxiv.example/1''))
               (Some (u ''paper'')) (Some (u ''2026-11-03T06:00:00+00:00''))
               (Some (u ''https://arxiv.example/rss'')),
             feed_item (Some (u ''https://arxiv.example/0'')) (Some (u ''https://arxiv.example/0''))
               (Some (u ''old paper'')) (Some (u ''2026-11-01T06:00:00+00:00''))
               (Some (u ''https://arxiv.example/rss''))]
      else if feed_url f = u ''https://blog.example/rss'' then
        Inr [feed_item (Some (u ''https://blog.example/1'')) (Some (u ''https://blog.example/1''))
               (Some (u ''post'')) (Some (u ''2026-11-03T06:00:00+00:00'')) (Some (u ''Some blog'')),
             feed_item (Some (u ''https://blog.example/1'')) (Some (u ''https://blog.example/1''))
               (Some (u ''post, again'')) (Some (u ''2026-11-03T06:00:00+00:00'')) (Some (u ''Some blog'')),
             feed_item (Some (u ''https://blog.example/2'')) (Some (u ''https://blog.example/2''))
               (Some (u ''undated'')) None (Some (u ''Some blog''))]
      else if feed_url f = u ''https://openai.example/rss'' then
        Inr [feed_item (Some (u ''https://openai.example/1'')) (Some (u ''https://openai.example/1''))
               (Some (u ''release'')) (Some (u ''2026-11-03T06:00:00+00:00'')) (Some (u ''OpenAI''))]
      else if feed_url f = u ''https://picks.example/rss'' then
        Inr [feed_item (Some (u ''https://picks.example/1'')) (Some (u ''https://picks.example/1''))
               (Some (u ''picks'')) (Some (u ''2026-11-03T06:00:00+00:00''))
               (Some (u ''Google arXiv picks''))]
      else Inl (u ''HTTP Error 404: Not Found''))"

text \<open>
  The world of the examples: the token is set, the clock reads 2026-11-03T12:00:00 UTC,
  and the search endpoint answers every request with \<open>example_payload\<close>.
\<close>

definition example_world :: world where
  "example_world =
     \<lparr>environ_X_BEARER_TOKEN = Some (u ''secret''),
      read_lines = example_files,
      now_utc = 63929304000000000,
      fetch_recent = (\<lambda>query start_time token max_results. Payload example_payload),
      fetch_account_feed = example_account_feed,
      fetch_and_parse_feed = example_feed\<rparr>"

text \<open>The same world, with a search endpoint that answers with \<open>tie_payload\<close>.\<close>

definition tie_world :: world where
  "tie_world =
     \<lparr>environ_X_BEARER_TOKEN = Some (u ''secret''),
      read_lines = example_files,
      now_utc = 63929304000000000,
      fetch_recent = (\<lambda>query start_time token max_results. Payload tie_payload),
      fetch_account_feed = example_account_feed,
      fetch_and_parse_feed = example_feed\<rparr>"

definition example_args :: args where
  "example_args =
     \<lparr>since_hours = 24, limit = 12, keywords_file = u ''keywords.txt'',
      accounts_file = u ''accounts.txt'', feeds_file = u ''feeds.txt'',
      exclude_keywords_file = u ''exclude_keywords.txt'', feed_timeout = 8, max_feeds = 0,
      mode = Auto\<rparr>"

section \<open>Properties of deduplication\<close>

lemma dedupe_loop_append:
  "dedupe_loop seen deduped items = deduped @ dedupe_loop seen [] items"
proof (induction items arbitrary: seen deduped)
  case Nil
  show ?case by simp
next
  case (Cons i items)
  show ?case
    using Cons.IH [of seen deduped] Cons.IH [of "insert (dedupe_key i) seen" "deduped @ [i]"]
      Cons.IH [of "insert (dedupe_key i) seen" "[i]"]
    by (simp add: Let_def)
qed

lemma dedupe_loop_Cons:
  "dedupe_loop seen [] (x # items) =
     (if \<not> truthy (dedupe_key x) \<or> dedupe_key x \<in> seen then dedupe_loop seen [] items
      else x # dedupe_loop (insert (dedupe_key x) seen) [] items)"
  using dedupe_loop_append [of "insert (dedupe_key x) seen" "[x]" items]
  by (simp add: Let_def)

lemma dedupe_loop_keys:
  "i \<in> set (dedupe_loop seen [] items) \<Longrightarrow>
     i \<in> set items \<and> truthy (dedupe_key i) \<and> dedupe_key i \<notin> seen"
proof (induction items arbitrary: seen)
  case Nil
  then show ?case by simp
next
  case (Cons x items)
  show ?case
  proof (cases "\<not> truthy (dedupe_key x) \<or> dedupe_key x \<in> seen")
    case True
    with Cons.prems have "i \<in> set (dedupe_loop seen [] items)"
      by (simp only: dedupe_loop_Cons if_True)
    from Cons.IH [OF this] show ?thesis by simp
  next
    case False
    with Cons.prems have "i \<in> set (x # dedupe_loop (insert (dedupe_key x) seen) [] items)"
      by (simp only: dedupe_loop_Cons if_False)
    then consider "i = x" | "i \<in> set (dedupe_loop (insert (dedupe_key x) seen) [] items)"
      by auto
    then show ?thesis
    proof cases
      case 1
      with False show ?thesis by simp
    next
      case 2
      from Cons.IH [OF this] show ?thesis by simp
    qed
  qed
qed

lemma dedupe_loop_distinct:
  "distinct (map dedupe_key (dedupe_loop seen [] items))"
proof (induction items arbitrary: seen)
  case Nil
  show ?case by simp
next
  case (Cons x items)
  have "dedupe_key x \<notin> dedupe_key ` set (dedupe_loop (insert (dedupe_key x) seen) [] items)"
  proof
    assume "dedupe_key x \<in> dedupe_key ` set (dedupe_loop (insert (dedupe_key x) seen) [] items)"
    then obtain y where y: "y \<in> set (dedupe_loop (insert (dedupe_key x) seen) [] items)"
      and k: "dedupe_key x = dedupe_key y" by blast
    from dedupe_loop_keys [OF y] k show False by simp
  qed
  then show ?case
    using Cons.IH [of seen] Cons.IH [of "insert (dedupe_key x) seen"]
    by (simp add: dedupe_loop_Cons del: dedupe_loop.simps)
qed

lemma dedupe_loop_fixed:
  "distinct (map dedupe_key ys) \<Longrightarrow> \<forall>y\<in>set ys. truthy (dedupe_key y) \<and> dedupe_key y \<notin> seen
     \<Longrightarrow> dedupe_loop seen [] ys = ys"
proof (induction ys arbitrary: seen)
  case Nil
  show ?case by simp
next
  case (Cons y ys)
  have "dedupe_loop (insert (dedupe_key y) seen) [] ys = ys"
  proof (rule Cons.IH)
    show "distinct (map dedupe_key ys)" using Cons.prems(1) by simp
    show "\<forall>z\<in>set ys. truthy (dedupe_key z) \<and> dedupe_key z \<notin> insert (dedupe_key y) seen"
    proof
      fix z assume z: "z \<in> set ys"
      then have "dedupe_key z \<in> dedupe_key ` set ys" by simp
      moreover have "dedupe_key y \<notin> dedupe_key ` set ys" using Cons.prems(1) by simp
      ultimately have "dedupe_key z \<noteq> dedupe_key y" by metis
      with z Cons.prems(2)
      show "truthy (dedupe_key z) \<and> dedupe_key z \<notin> insert (dedupe_key y) seen" by simp
    qed
  qed
  with Cons.prems(2) show ?case
    by (simp add: dedupe_loop_Cons del: dedupe_loop.simps)
qed





text \<open>
  C5. Deduplication is idempotent: for every list of items, deduplicating the
  deduplicated list gives the deduplicated list again.
\<close>

theorem dedupe_idempotent: "dedupe (dedupe xs) = dedupe xs"
  unfolding dedupe_def
proof (rule dedupe_loop_fixed)
  show "distinct (map dedupe_key (dedupe_loop {} [] xs))" by (rule dedupe_loop_distinct)
  show "\<forall>y\<in>set (dedupe_loop {} [] xs). truthy (dedupe_key y) \<and> dedupe_key y \<notin> {}"
    using dedupe_loop_keys [of _ "{}" xs] by simp
qed



section \<open>Properties of sorting and truncation\<close>

lemma sort_reverse_sorted:
  fixes k :: "'a \<Rightarrow> 'b::linorder"
  shows "sorted_wrt (\<lambda>a b. k b \<le> k a) (sort_reverse k xs)"
proof -
  have "sorted (map k (sort_key k (rev xs)))" by simp
  then have "sorted_wrt (\<lambda>a b. k a \<le> k b) (sort_key k (rev xs))"
    by (simp only: sorted_map)
  then show ?thesis by (simp add: sort_reverse_def sorted_wrt_rev)
qed

lemma mset_sort_reverse: "mset (sort_reverse k xs) = mset xs"
  by (simp add: sort_reverse_def)

lemma distinct_map_sort_reverse:
  "distinct (map f (sort_reverse k xs)) = distinct (map f xs)"
proof -
  have "mset (map f (sort_reverse k xs)) = mset (map f xs)"
    by (simp add: mset_sort_reverse)
  then show ?thesis by (rule mset_eq_imp_distinct_iff)
qed

lemma descending_index:
  fixes k :: "'a \<Rightarrow> 'b::linorder"
  assumes "sorted_wrt (\<lambda>a b. k b \<le> k a) s" and "i < length s" and "j < length s"
    and "k (s ! j) < k (s ! i)"
  shows "i < j"
proof (rule ccontr)
  assume "\<not> i < j"
  then have "j = i \<or> j < i" by arith
  then show False
  proof
    assume "j = i"
    with assms(4) show False by simp
  next
    assume "j < i"
    with assms(1,2) have "k (s ! i) \<le> k (s ! j)"
      by (simp add: sorted_wrt_iff_nth_less)
    with assms(4) show False by simp
  qed
qed

lemma slice_to_max: "slice_to (max n 0) xs = take (nat n) xs"
  by (simp add: slice_to_def max_def)

section \<open>The three pipelines of \<open>main\<close>\<close>

lemma main_keywords_BatchD:
  assumes "main_keywords L w a tok = (calls, Inr (code, Batch b))"
  shows "\<exists>p st. start_time_iso L (now_utc w) (since_hours a) = Inr st
    \<and> fetch_recent w (build_query (load_keywords w (keywords_file a))) st tok
          (min 100 (max 50 (limit a * 5))) = Payload p
    \<and> calls = [\<lparr>call_query = build_query (load_keywords w (keywords_file a)),
                 call_start_time = st, call_bearer_token = tok,
                 call_max_results = min 100 (max 50 (limit a * 5))\<rparr>]
    \<and> code = 0 \<and> batch_mode b = u ''keywords''
    \<and> batch_items b = take (nat (limit a)) (build_items p)"
  using assms unfolding main_keywords_def Let_def slice_to_max
  by (auto split: if_splits sum.splits fetch_result.splits)

lemma main_accounts_BatchD:
  assumes "main_accounts L w a = (calls, Inr (code, Batch b))"
  shows "\<exists>xs. calls = [] \<and> code = 0 \<and> batch_mode b = u ''accounts''
    \<and> batch_items b
        = take (nat (limit a)) (sort_reverse (\<lambda>i. or_empty (item_created_at i)) (dedupe xs))"
  using assms unfolding main_accounts_def Let_def slice_to_max
  by (auto split: if_splits sum.splits prod.splits)

lemma main_feeds_BatchD:
  assumes "main_feeds L w a = (calls, Inr (code, Batch b))"
  shows "\<exists>xs. calls = [] \<and> code = 0 \<and> batch_mode b = u ''feeds''
    \<and> batch_items b = take (nat (limit a)) (sort_reverse (weight_key L) (dedupe xs))"
  using assms unfolding main_feeds_def Let_def slice_to_max
  by (auto split: if_splits sum.splits prod.splits)

lemma main_cases:
  "main L w a =
     (if (mode a = Auto \<or> mode a = Keywords) \<and> truthy (environ_X_BEARER_TOKEN w)
      then main_keywords L w a (or_empty (environ_X_BEARER_TOKEN w))
      else if mode a = Accounts then main_accounts L w a
      else main_feeds L w a)"
  by (simp add: main_def Let_def)

lemma distinct_dedupe_sorted_take:
  "distinct (map dedupe_key (take n (sort_reverse k (dedupe xs))))"
proof -
  have "distinct (map dedupe_key (dedupe xs))"
    unfolding dedupe_def by (rule dedupe_loop_distinct)
  then have "distinct (map dedupe_key (sort_reverse k (dedupe xs)))"
    by (simp only: distinct_map_sort_reverse)
  then have "distinct (take n (map dedupe_key (sort_reverse k (dedupe xs))))"
    by (rule distinct_take)
  then show ?thesis by (simp only: take_map)
qed

section \<open>Evaluating the examples\<close>

lemmas example_defs = example_payload_def example_users_def tweet_1_def tweet_2_def tweet_3_def
  tweet_4_def tweet_5_def tie_payload_def tie_world_def
  example_world_def example_args_def example_lib_def example_files_def
  example_isoformat_def example_fromisoformat_def example_feed_def example_account_feed_def
  ascii_lower_def feed_item_def

lemmas string_defs = u_def startswith_def strip_def lstrip_def rstrip_def is_space_def
  replace_def split1_def lstrip_char_def

lemmas fetcher_defs = main_def main_keywords_def main_accounts_def main_feeds_def Let_def
  printed_items_def slice_to_def load_keywords_def load_accounts_def load_feeds_def
  load_exclude_keywords_def build_query_def quote_keyword_def start_time_iso_def
  minus_hours_def datetime_max_def build_items_def build_item_def sort_reverse_def metric_def
  users_get_def engagement_key_def py_or_def dedupe_key_def dedupe_def filter_since_def
  filter_excluded_def fetch_feed_def parse_feed_line_def normalize_account_def
  source_weight_def weight_key_def official_keywords_def no_results_def

section \<open>Claims about \<open>main\<close>\<close>

lemma printed_items_cases:
  "printed_items r = []
    \<or> (\<exists>calls code b. r = (calls, Inr (code, Batch b)) \<and> printed_items r = batch_items b)"
  by (cases r) (auto simp: printed_items_def split: sum.splits stdout.splits)

lemma main_keywords_success:
  assumes "build_query (load_keywords w (keywords_file a)) \<noteq> []"
    and "start_time_iso L (now_utc w) (since_hours a) = Inr st"
    and "fetch_recent w (build_query (load_keywords w (keywords_file a))) st tok
           (min 100 (max 50 (limit a * 5))) = Payload q"
    and "payload_errors q = []"
  shows "printed_items (main_keywords L w a tok) = take (nat (limit a)) (build_items q)"
  using assms unfolding main_keywords_def Let_def slice_to_max printed_items_def
  by simp

lemma main_keywords_calls:
  assumes "build_query (load_keywords w (keywords_file a)) \<noteq> []"
    and "start_time_iso L (now_utc w) (since_hours a) = Inr st"
  shows "fst (main_keywords L w a tok)
    = [\<lparr>call_query = build_query (load_keywords w (keywords_file a)),
         call_start_time = st, call_bearer_token = tok,
         call_max_results = min 100 (max 50 (limit a * 5))\<rparr>]"
  using assms unfolding main_keywords_def Let_def
  by (simp split: fetch_result.splits)

lemma main_keywords_call_max_results:
  "c \<in> set (fst (main_keywords L w a tok))
     \<Longrightarrow> call_max_results c = min 100 (max 50 (limit a * 5))"
  unfolding main_keywords_def Let_def
  by (auto split: if_splits sum.splits fetch_result.splits)

lemma main_accounts_no_calls: "fst (main_accounts L w a) = []"
  unfolding main_accounts_def Let_def
  by (auto split: if_splits sum.splits prod.splits)

lemma main_feeds_no_calls: "fst (main_feeds L w a) = []"
  unfolding main_feeds_def Let_def
  by (auto split: if_splits sum.splits prod.splits)

text \<open>
  C1, as amended. In accounts mode and in feeds mode, that is for every run that does not
  take the keywords pipeline, no two items of the printed batch share a deduplication
  key (url, else id, else text). The keywords pipeline has no deduplication step: its
  items are the tweets of the response, sorted and truncated.
\<close>

theorem other_modes_keys_unique:
  assumes "\<not> ((mode a = Auto \<or> mode a = Keywords) \<and> truthy (environ_X_BEARER_TOKEN w))"
  shows "distinct (map dedupe_key (printed_items (main L w a)))"
proof -
  from printed_items_cases [of "main L w a"] show ?thesis
  proof
    assume "printed_items (main L w a) = []"
    then show ?thesis by simp
  next
    assume "\<exists>calls code b. main L w a = (calls, Inr (code, Batch b))
      \<and> printed_items (main L w a) = batch_items b"
    then obtain calls code b where run: "main L w a = (calls, Inr (code, Batch b))"
      and items: "printed_items (main L w a) = batch_items b" by blast
    show ?thesis
    proof (cases "mode a = Accounts")
      case True
      with assms run have "main_accounts L w a = (calls, Inr (code, Batch b))"
        by (auto simp add: main_cases split: if_splits)
      from main_accounts_BatchD [OF this] items show ?thesis
        by (auto simp only: distinct_dedupe_sorted_take)
    next
      case False
      with assms run have "main_feeds L w a = (calls, Inr (code, Batch b))"
        by (auto simp add: main_cases split: if_splits)
      from main_feeds_BatchD [OF this] items show ?thesis
        by (auto simp only: distinct_dedupe_sorted_take)
    qed
  qed
qed

theorem other_modes_keys_unique_witness:
  "\<not> ((mode (example_args\<lparr>mode := Feeds\<rparr>) = Auto \<or> mode (example_args\<lparr>mode := Feeds\<rparr>) = Keywords)
        \<and> truthy (environ_X_BEARER_TOKEN example_world))
   \<and> length (printed_items (main example_lib example_world (example_args\<lparr>mode := Feeds\<rparr>))) = 5
   \<and> distinct (map dedupe_key
        (printed_items (main example_lib example_world (example_args\<lparr>mode := Feeds\<rparr>))))"
proof -
  have path: "\<not> ((mode (example_args\<lparr>mode := Feeds\<rparr>) = Auto
      \<or> mode (example_args\<lparr>mode := Feeds\<rparr>) = Keywords)
      \<and> truthy (environ_X_BEARER_TOKEN example_world))"
    by simp
  have len: "length (printed_items (main example_lib example_world (example_args\<lparr>mode := Feeds\<rparr>))) = 5"
    by (simp add: example_defs string_defs fetcher_defs)
  from path len other_modes_keys_unique [OF path, of example_lib] show ?thesis by blast
qed

text \<open>
  In keywords mode the claim fails: when the response lists a tweet twice, the printed
  batch holds two items with the same url.
\<close>

theorem keywords_mode_duplicate_keys_counterexample:
  "(mode example_args = Auto \<or> mode example_args = Keywords)
   \<and> truthy (environ_X_BEARER_TOKEN example_world)
   \<and> map dedupe_key (printed_items (main example_lib example_world example_args))
       = [Some (u ''https://x.com/i/web/status/2''), Some (u ''https://x.com/alice/status/3''),
          Some (u ''https://x.com/alice/status/1''), Some (u ''https://x.com/alice/status/1'')]
   \<and> \<not> distinct (map dedupe_key (printed_items (main example_lib example_world example_args)))"
  by (simp add: example_defs string_defs fetcher_defs)

text \<open>
  C2, as amended. In keywords mode the items built from the response are sorted so that
  an item with a strictly higher engagement score stands before one with a lower score,
  whatever their timestamps, and of two items with equal scores the one whose
  \<open>created_at\<close> is the greater string, in Python's order on strings, stands first (a
  missing \<open>created_at\<close> counts as the empty string): the timestamps are compared as
  text and never parsed. The sorted list is a rearrangement of the items built, and the
  batch printed holds its first \<open>limit\<close> items.
\<close>

theorem keywords_ranking:
  "(\<forall>i j. i < length (build_items p) \<and> j < length (build_items p)
       \<and> item_engagement_score (build_items p ! j) < item_engagement_score (build_items p ! i)
       \<longrightarrow> i < j)
   \<and> (\<forall>i j. i < length (build_items p) \<and> j < length (build_items p)
       \<and> item_engagement_score (build_items p ! j) = item_engagement_score (build_items p ! i)
       \<and> or_empty (item_created_at (build_items p ! j))
           < or_empty (item_created_at (build_items p ! i))
       \<longrightarrow> i < j)
   \<and> mset (build_items p) = mset (map (build_item (payload_users p)) (payload_data p))
   \<and> ((mode a = Auto \<or> mode a = Keywords) \<and> truthy (environ_X_BEARER_TOKEN w)
       \<and> build_query (load_keywords w (keywords_file a)) \<noteq> []
       \<and> start_time_iso L (now_utc w) (since_hours a) = Inr st
       \<and> fetch_recent w (build_query (load_keywords w (keywords_file a))) st
            (or_empty (environ_X_BEARER_TOKEN w)) (min 100 (max 50 (limit a * 5))) = Payload p
       \<and> payload_errors p = []
       \<longrightarrow> printed_items (main L w a) = take (nat (limit a)) (build_items p))"
proof (intro conjI allI impI)
  have sorted: "sorted_wrt (\<lambda>x y. engagement_key y \<le> engagement_key x) (build_items p)"
    unfolding build_items_def by (rule sort_reverse_sorted)
  {
    fix i j
    assume h: "i < length (build_items p) \<and> j < length (build_items p)
       \<and> item_engagement_score (build_items p ! j) < item_engagement_score (build_items p ! i)"
    then have "engagement_key (build_items p ! j) < engagement_key (build_items p ! i)"
      by (simp add: engagement_key_def)
    with sorted h show "i < j" by (blast intro: descending_index)
  }
  {
    fix i j
    assume h: "i < length (build_items p) \<and> j < length (build_items p)
       \<and> item_engagement_score (build_items p ! j) = item_engagement_score (build_items p ! i)
       \<and> or_empty (item_created_at (build_items p ! j))
           < or_empty (item_created_at (build_items p ! i))"
    then have "engagement_key (build_items p ! j) < engagement_key (build_items p ! i)"
      by (simp add: engagement_key_def)
    with sorted h show "i < j" by (blast intro: descending_index)
  }
  show "mset (build_items p) = mset (map (build_item (payload_users p)) (payload_data p))"
    by (simp only: build_items_def mset_sort_reverse)
next
  assume h: "(mode a = Auto \<or> mode a = Keywords) \<and> truthy (environ_X_BEARER_TOKEN w)
       \<and> build_query (load_keywords w (keywords_file a)) \<noteq> []
       \<and> start_time_iso L (now_utc w) (since_hours a) = Inr st
       \<and> fetch_recent w (build_query (load_keywords w (keywords_file a))) st
            (or_empty (environ_X_BEARER_TOKEN w)) (min 100 (max 50 (limit a * 5))) = Payload p
       \<and> payload_errors p = []"
  then have "main L w a = main_keywords L w a (or_empty (environ_X_BEARER_TOKEN w))"
    by (simp add: main_cases)
  with h show "printed_items (main L w a) = take (nat (limit a)) (build_items p)"
    by (simp add: main_keywords_success)
qed

lemma example_build_items:
  "map item_id (build_items example_payload)
     = [Some (u ''2''), Some (u ''3''), Some (u ''1''), Some (u ''1'')]"
  "map item_engagement_score (build_items example_payload) = [10, 5, 5, 5]"
  by (simp_all add: example_defs string_defs fetcher_defs)

lemma example_keywords_path:
  "(mode example_args = Auto \<or> mode example_args = Keywords)
     \<and> truthy (environ_X_BEARER_TOKEN example_world)
     \<and> build_query (load_keywords example_world (keywords_file example_args)) \<noteq> []
     \<and> start_time_iso example_lib (now_utc example_world) (since_hours example_args)
         = Inr (u ''2026-11-02T12:00:00Z'')"
  by (simp add: example_defs string_defs fetcher_defs)

theorem keywords_ranking_witness:
  "item_engagement_score (build_items example_payload ! 1)
     < item_engagement_score (build_items example_payload ! 0)
   \<and> item_engagement_score (build_items example_payload ! 2)
       = item_engagement_score (build_items example_payload ! 1)
   \<and> or_empty (item_created_at (build_items example_payload ! 2))
       < or_empty (item_created_at (build_items example_payload ! 1))
   \<and> map item_id (build_items example_payload)
       = [Some (u ''2''), Some (u ''3''), Some (u ''1''), Some (u ''1'')]
   \<and> printed_items (main example_lib example_world (example_args\<lparr>limit := 2\<rparr>))
       = take 2 (build_items example_payload)"
proof -
  have order: "item_engagement_score (build_items example_payload ! 1)
       < item_engagement_score (build_items example_payload ! 0)
     \<and> item_engagement_score (build_items example_payload ! 2)
       = item_engagement_score (build_items example_payload ! 1)
     \<and> or_empty (item_created_at (build_items example_payload ! 2))
       < or_empty (item_created_at (build_items example_payload ! 1))"
    by (simp add: example_defs string_defs fetcher_defs)
  have path: "(mode (example_args\<lparr>limit := 2\<rparr>) = Auto \<or> mode (example_args\<lparr>limit := 2\<rparr>) = Keywords)
     \<and> truthy (environ_X_BEARER_TOKEN example_world)
     \<and> build_query (load_keywords example_world (keywords_file (example_args\<lparr>limit := 2\<rparr>))) \<noteq> []
     \<and> start_time_iso example_lib (now_utc example_world) (since_hours (example_args\<lparr>limit := 2\<rparr>))
         = Inr (u ''2026-11-02T12:00:00Z'')
     \<and> fetch_recent example_world
          (build_query (load_keywords example_world (keywords_file (example_args\<lparr>limit := 2\<rparr>))))
          (u ''2026-11-02T12:00:00Z'') (or_empty (environ_X_BEARER_TOKEN example_world))
          (min 100 (max 50 (limit (example_args\<lparr>limit := 2\<rparr>) * 5))) = Payload example_payload
     \<and> payload_errors example_payload = []"
    using example_keywords_path by (simp add: example_world_def example_payload_def)
  have "printed_items (main example_lib example_world (example_args\<lparr>limit := 2\<rparr>))
      = take (nat (limit (example_args\<lparr>limit := 2\<rparr>))) (build_items example_payload)"
    using keywords_ranking [where p = example_payload and a = "example_args\<lparr>limit := 2\<rparr>"
        and w = example_world and L = example_lib and st = "u ''2026-11-02T12:00:00Z''"] path
    by blast
  then have "printed_items (main example_lib example_world (example_args\<lparr>limit := 2\<rparr>))
      = take 2 (build_items example_payload)"
    by simp
  with order example_build_items(1) show ?thesis by blast
qed

text \<open>
  The claim as stated fails where the order of the strings is not the order of the
  instants: of two tweets with equal scores, posted at 06:00:00 and at 06:00:00.500, the
  later one is "2026-11-03T06:00:00.500Z", the smaller string, and the earlier tweet is
  placed first, whatever the order of the response.
\<close>

theorem keywords_tie_break_counterexample:
  "fromisoformat example_lib (replace (u ''Z'') (u ''+00:00'') (u ''2026-11-03T06:00:00Z''))
     = Some (Aware 63929282400000000)
   \<and> fromisoformat example_lib (replace (u ''Z'') (u ''+00:00'') (u ''2026-11-03T06:00:00.500Z''))
     = Some (Aware 63929282400500000)
   \<and> (63929282400000000::int) < 63929282400500000
   \<and> map item_engagement_score (build_items tie_payload) = [1, 1]
   \<and> map item_created_at (build_items tie_payload)
       = [Some (u ''2026-11-03T06:00:00Z''), Some (u ''2026-11-03T06:00:00.500Z'')]
   \<and> map item_created_at
        (build_items (tie_payload\<lparr>payload_data := [tweet_4, tweet_5]\<rparr>))
       = [Some (u ''2026-11-03T06:00:00Z''), Some (u ''2026-11-03T06:00:00.500Z'')]
   \<and> map item_created_at (printed_items (main example_lib tie_world example_args))
       = [Some (u ''2026-11-03T06:00:00Z''), Some (u ''2026-11-03T06:00:00.500Z'')]"
  by (simp add: example_defs string_defs fetcher_defs)

text \<open>
  C7. Every call of the search endpoint that a run makes asks for
  \<open>min(100, max(50, limit*5))\<close> candidates, a number between 50 and 100; and a run of
  the keywords pipeline with a non-empty query and a representable start time makes
  exactly one such call.
\<close>

theorem keywords_max_results:
  "(\<forall>c. c \<in> set (fst (main L w a)) \<longrightarrow>
       call_max_results c = min 100 (max 50 (limit a * 5))
       \<and> 50 \<le> call_max_results c \<and> call_max_results c \<le> 100)
   \<and> ((mode a = Auto \<or> mode a = Keywords) \<and> truthy (environ_X_BEARER_TOKEN w)
       \<and> build_query (load_keywords w (keywords_file a)) \<noteq> []
       \<and> start_time_iso L (now_utc w) (since_hours a) = Inr st
       \<longrightarrow> map call_max_results (fst (main L w a)) = [min 100 (max 50 (limit a * 5))])"
proof (intro conjI allI impI)
  fix c
  assume c: "c \<in> set (fst (main L w a))"
  have "call_max_results c = min 100 (max 50 (limit a * 5))"
  proof (cases "(mode a = Auto \<or> mode a = Keywords) \<and> truthy (environ_X_BEARER_TOKEN w)")
    case True
    with c have "c \<in> set (fst (main_keywords L w a (or_empty (environ_X_BEARER_TOKEN w))))"
      by (simp add: main_cases)
    then show ?thesis by (rule main_keywords_call_max_results)
  next
    case False
    with c show ?thesis
      by (simp add: main_cases main_accounts_no_calls main_feeds_no_calls split: if_splits)
  qed
  then show "call_max_results c = min 100 (max 50 (limit a * 5))"
    and "50 \<le> call_max_results c" and "call_max_results c \<le> 100"
    by simp_all
next
  assume h: "(mode a = Auto \<or> mode a = Keywords) \<and> truthy (environ_X_BEARER_TOKEN w)
       \<and> build_query (load_keywords w (keywords_file a)) \<noteq> []
       \<and> start_time_iso L (now_utc w) (since_hours a) = Inr st"
  then have "main L w a = main_keywords L w a (or_empty (environ_X_BEARER_TOKEN w))"
    by (simp add: main_cases)
  with h show "map call_max_results (fst (main L w a)) = [min 100 (max 50 (limit a * 5))]"
    by (simp add: main_keywords_calls)
qed

theorem keywords_max_results_witness:
  "(mode example_args = Auto \<or> mode example_args = Keywords)
   \<and> truthy (environ_X_BEARER_TOKEN example_world)
   \<and> build_query (load_keywords example_world (keywords_file example_args)) \<noteq> []
   \<and> start_time_iso example_lib (now_utc example_world) (since_hours example_args)
       = Inr (u ''2026-11-02T12:00:00Z'')
   \<and> limit example_args = 12
   \<and> map call_max_results (fst (main example_lib example_world example_args)) = [60]"
proof -
  have "map call_max_results (fst (main example_lib example_world example_args))
      = [min 100 (max 50 (limit example_args * 5))]"
    using keywords_max_results [where a = example_args and w = example_world
        and L = example_lib and st = "u ''2026-11-02T12:00:00Z''"] example_keywords_path
    by blast
  moreover have "limit example_args = 12" by (simp add: example_args_def)
  ultimately show ?thesis using example_keywords_path by simp
qed

text \<open>
  C6. When the bearer token is set (to a non-empty value), the mode is keywords or auto,
  and no line of the keywords file yields a quoted keyword (the file is missing, empty,
  or holds only blank lines, comments and lines of double quotes), the run calls no
  endpoint, exits with code 2 and prints an error payload, not a batch, that says the
  keyword list is empty.
\<close>

theorem empty_keywords_exit_2:
  assumes "mode a = Auto \<or> mode a = Keywords"
    and "truthy (environ_X_BEARER_TOKEN w)"
    and "\<forall>k \<in> set (load_keywords w (keywords_file a)). quote_keyword k = []"
  shows "main L w a = ([], Inr (2, Error_payload
           (u ''Keyword list is empty. Add keywords to references/keywords.txt.'') No_details))"
proof -
  have "filter (\<lambda>q. q \<noteq> [])
      (map quote_keyword (filter (\<lambda>k. strip k \<noteq> []) (load_keywords w (keywords_file a)))) = []"
    using assms(3) by (auto simp: filter_empty_conv)
  then have "build_query (load_keywords w (keywords_file a)) = []"
    by (simp add: build_query_def Let_def)
  with assms(1,2) show ?thesis
    by (simp add: main_cases main_keywords_def Let_def)
qed

theorem empty_keywords_exit_2_witness:
  "(mode (example_args\<lparr>keywords_file := u ''no_keywords.txt''\<rparr>) = Auto
      \<or> mode (example_args\<lparr>keywords_file := u ''no_keywords.txt''\<rparr>) = Keywords)
   \<and> truthy (environ_X_BEARER_TOKEN example_world)
   \<and> load_keywords example_world (u ''no_keywords.txt'') = [[34, 34]]
   \<and> quote_keyword [34, 34] = []
   \<and> main example_lib example_world (example_args\<lparr>keywords_file := u ''no_keywords.txt''\<rparr>)
       = ([], Inr (2, Error_payload
           (u ''Keyword list is empty. Add keywords to references/keywords.txt.'') No_details))"
proof -
  have m: "mode (example_args\<lparr>keywords_file := u ''no_keywords.txt''\<rparr>) = Auto
      \<or> mode (example_args\<lparr>keywords_file := u ''no_keywords.txt''\<rparr>) = Keywords"
    by (simp add: example_args_def)
  have t: "truthy (environ_X_BEARER_TOKEN example_world)"
    by (simp add: example_world_def u_def)
  have l: "load_keywords example_world (u ''no_keywords.txt'') = [[34, 34]]"
    by (simp add: example_defs string_defs fetcher_defs)
  have q: "quote_keyword [34, 34] = []"
    by (simp add: string_defs fetcher_defs)
  have "\<forall>k \<in> set (load_keywords example_world
      (keywords_file (example_args\<lparr>keywords_file := u ''no_keywords.txt''\<rparr>))). quote_keyword k = []"
    using l q by simp
  from empty_keywords_exit_2 [OF m t this, of example_lib] m t l q show ?thesis by blast
qed

lemma main_keywords_negative_limit:
  assumes "limit a < 0"
    and "main_keywords L w (a\<lparr>limit := 0\<rparr>) tok = (calls, Inr (code, Batch b))"
  shows "main_keywords L w a tok = (calls, Inr (code, Batch (b\<lparr>batch_limit := limit a\<rparr>)))"
  using assms unfolding main_keywords_def Let_def slice_to_max
  by (auto split: if_splits sum.splits fetch_result.splits)

lemma main_accounts_negative_limit:
  assumes "limit a < 0"
    and "main_accounts L w (a\<lparr>limit := 0\<rparr>) = (calls, Inr (code, Batch b))"
  shows "main_accounts L w a = (calls, Inr (code, Batch (b\<lparr>batch_limit := limit a\<rparr>)))"
  using assms unfolding main_accounts_def Let_def slice_to_max
  by (auto split: if_splits sum.splits prod.splits)

lemma main_feeds_negative_limit:
  assumes "limit a < 0"
    and "main_feeds L w (a\<lparr>limit := 0\<rparr>) = (calls, Inr (code, Batch b))"
  shows "main_feeds L w a = (calls, Inr (code, Batch (b\<lparr>batch_limit := limit a\<rparr>)))"
  using assms unfolding main_feeds_def Let_def slice_to_max
  by (auto split: if_splits sum.splits prod.splits)

text \<open>
  C9. With a negative \<open>--limit\<close>, every batch a run prints, in any of the three modes, has
  an empty items list: the slice bound is \<open>max(limit, 0)\<close>. The negative limit raises no
  error of its own: wherever the run with limit 0 prints a batch, the run with the
  negative limit prints the same batch, with the limit it was given.
\<close>

theorem negative_limit_no_items:
  assumes "limit a < 0"
  shows "(\<forall>calls code b. main L w a = (calls, Inr (code, Batch b)) \<longrightarrow> batch_items b = [])
    \<and> (\<forall>calls code b. main L w (a\<lparr>limit := 0\<rparr>) = (calls, Inr (code, Batch b))
          \<longrightarrow> main L w a = (calls, Inr (code, Batch (b\<lparr>batch_limit := limit a\<rparr>))))"
proof (intro conjI allI impI)
  fix calls code b
  assume run: "main L w a = (calls, Inr (code, Batch b))"
  from assms have zero: "nat (limit a) = 0" by simp
  from run have "main_keywords L w a (or_empty (environ_X_BEARER_TOKEN w))
        = (calls, Inr (code, Batch b))
      \<or> main_accounts L w a = (calls, Inr (code, Batch b))
      \<or> main_feeds L w a = (calls, Inr (code, Batch b))"
    by (auto simp add: main_cases split: if_splits)
  then show "batch_items b = []"
    using main_keywords_BatchD [of L w a "or_empty (environ_X_BEARER_TOKEN w)" calls code b]
      main_accounts_BatchD [of L w a calls code b] main_feeds_BatchD [of L w a calls code b] zero
    by auto
next
  fix calls code b
  assume "main L w (a\<lparr>limit := 0\<rparr>) = (calls, Inr (code, Batch b))"
  then show "main L w a = (calls, Inr (code, Batch (b\<lparr>batch_limit := limit a\<rparr>)))"
    using main_keywords_negative_limit [OF assms, of L w "or_empty (environ_X_BEARER_TOKEN w)" calls code b]
      main_accounts_negative_limit [OF assms, of L w calls code b]
      main_feeds_negative_limit [OF assms, of L w calls code b]
    by (auto simp add: main_cases split: if_splits)
qed

lemma example_feeds_limit_0:
  "main example_lib example_world (example_args\<lparr>mode := Feeds, limit := 0\<rparr>)
     = ([], Inr (0, Batch
         \<lparr>batch_mode = u ''feeds'', batch_query = None, batch_start_time = None,
          batch_accounts = None,
          batch_feeds = Some [u ''Karpathy blog'', u ''https://arxiv.example/rss'',
            u ''Some blog'', u ''OpenAI'', u ''Google arXiv picks''],
          batch_limit = 0, batch_fetched = 5, batch_items = [], batch_errors = None,
          batch_notice = Some no_results\<rparr>))"
  by (simp add: example_defs string_defs fetcher_defs)

theorem negative_limit_no_items_witness:
  "limit (example_args\<lparr>mode := Feeds, limit := - 3\<rparr>) < 0
   \<and> main example_lib example_world (example_args\<lparr>mode := Feeds, limit := - 3\<rparr>)
     = ([], Inr (0, Batch
         \<lparr>batch_mode = u ''feeds'', batch_query = None, batch_start_time = None,
          batch_accounts = None,
          batch_feeds = Some [u ''Karpathy blog'', u ''https://arxiv.example/rss'',
            u ''Some blog'', u ''OpenAI'', u ''Google arXiv picks''],
          batch_limit = - 3, batch_fetched = 5, batch_items = [], batch_errors = None,
          batch_notice = Some no_results\<rparr>))"
proof -
  have neg: "limit (example_args\<lparr>mode := Feeds, limit := - 3\<rparr>) < 0" by simp
  have same: "example_args\<lparr>mode := Feeds, limit := - 3, limit := 0\<rparr>
      = example_args\<lparr>mode := Feeds, limit := 0\<rparr>" by simp
  from negative_limit_no_items [OF neg, of example_lib example_world] example_feeds_limit_0 same
  have "main example_lib example_world (example_args\<lparr>mode := Feeds, limit := - 3\<rparr>)
     = ([], Inr (0, Batch
         (\<lparr>batch_mode = u ''feeds'', batch_query = None, batch_start_time = None,
          batch_accounts = None,
          batch_feeds = Some [u ''Karpathy blog'', u ''https://arxiv.example/rss'',
            u ''Some blog'', u ''OpenAI'', u ''Google arXiv picks''],
          batch_limit = 0, batch_fetched = 5, batch_items = [], batch_errors = None,
          batch_notice = Some no_results\<rparr>
          \<lparr>batch_limit := limit (example_args\<lparr>mode := Feeds, limit := - 3\<rparr>)\<rparr>)))"
    by (simp only:)
  with neg show ?thesis by simp
qed

lemma printed_feeds_sorted:
  assumes "\<not> ((mode a = Auto \<or> mode a = Keywords) \<and> truthy (environ_X_BEARER_TOKEN w))"
    and "mode a \<noteq> Accounts"
  shows "sorted_wrt (\<lambda>x y. weight_key L y \<le> weight_key L x) (printed_items (main L w a))"
proof -
  from printed_items_cases [of "main L w a"] show ?thesis
  proof
    assume "printed_items (main L w a) = []"
    then show ?thesis by simp
  next
    assume "\<exists>calls code b. main L w a = (calls, Inr (code, Batch b))
      \<and> printed_items (main L w a) = batch_items b"
    then obtain calls code b where run: "main L w a = (calls, Inr (code, Batch b))"
      and items: "printed_items (main L w a) = batch_items b" by blast
    from assms run have "main_feeds L w a = (calls, Inr (code, Batch b))"
      by (auto simp add: main_cases split: if_splits)
    from main_feeds_BatchD [OF this] obtain xs where
      "batch_items b = take (nat (limit a)) (sort_reverse (weight_key L) (dedupe xs))"
      by blast
    with items show ?thesis
      by (simp only: sorted_wrt_take sort_reverse_sorted)
  qed
qed

text \<open>
  C3, as amended. The weight of an item is decided by the first rule that matches its
  lower-cased source label (or its author, when it has no source label): 3 when it
  contains "karpathy"; otherwise 2 when it contains an official-organization keyword;
  otherwise 0 when it contains "arxiv"; otherwise 1. In feeds mode the printed items are
  sorted by the key (source weight, created_at) descending: an item of greater weight
  stands before one of lesser weight, so weight 3 before 2 before 1 before 0, and of two
  items of equal weight the one with the greater \<open>created_at\<close> stands first.
\<close>

theorem feeds_ranking:
  "(contains (u ''karpathy'') (str_lower L (or_empty (py_or (item_source i) (item_author i))))
      \<longrightarrow> source_weight L i = 3)
   \<and> (\<not> contains (u ''karpathy'') (str_lower L (or_empty (py_or (item_source i) (item_author i))))
       \<and> list_ex (\<lambda>key. contains key
             (str_lower L (or_empty (py_or (item_source i) (item_author i))))) official_keywords
      \<longrightarrow> source_weight L i = 2)
   \<and> (\<not> contains (u ''karpathy'') (str_lower L (or_empty (py_or (item_source i) (item_author i))))
       \<and> \<not> list_ex (\<lambda>key. contains key
             (str_lower L (or_empty (py_or (item_source i) (item_author i))))) official_keywords
       \<and> contains (u ''arxiv'') (str_lower L (or_empty (py_or (item_source i) (item_author i))))
      \<longrightarrow> source_weight L i = 0)
   \<and> (\<not> contains (u ''karpathy'') (str_lower L (or_empty (py_or (item_source i) (item_author i))))
       \<and> \<not> list_ex (\<lambda>key. contains key
             (str_lower L (or_empty (py_or (item_source i) (item_author i))))) official_keywords
       \<and> \<not> contains (u ''arxiv'') (str_lower L (or_empty (py_or (item_source i) (item_author i))))
      \<longrightarrow> source_weight L i = 1)
   \<and> (\<not> ((mode a = Auto \<or> mode a = Keywords) \<and> truthy (environ_X_BEARER_TOKEN w))
       \<and> mode a \<noteq> Accounts
      \<longrightarrow> (\<forall>m n. m < length (printed_items (main L w a))
             \<and> n < length (printed_items (main L w a))
             \<and> (source_weight L (printed_items (main L w a) ! n)
                  < source_weight L (printed_items (main L w a) ! m)
                \<or> source_weight L (printed_items (main L w a) ! n)
                    = source_weight L (printed_items (main L w a) ! m)
                  \<and> or_empty (item_created_at (printed_items (main L w a) ! n))
                      < or_empty (item_created_at (printed_items (main L w a) ! m)))
            \<longrightarrow> m < n))"
proof (intro conjI allI impI)
  assume h: "\<not> ((mode a = Auto \<or> mode a = Keywords) \<and> truthy (environ_X_BEARER_TOKEN w))
       \<and> mode a \<noteq> Accounts"
  fix m n
  assume mn: "m < length (printed_items (main L w a))
             \<and> n < length (printed_items (main L w a))
             \<and> (source_weight L (printed_items (main L w a) ! n)
                  < source_weight L (printed_items (main L w a) ! m)
                \<or> source_weight L (printed_items (main L w a) ! n)
                    = source_weight L (printed_items (main L w a) ! m)
                  \<and> or_empty (item_created_at (printed_items (main L w a) ! n))
                      < or_empty (item_created_at (printed_items (main L w a) ! m)))"
  then have "weight_key L (printed_items (main L w a) ! n)
      < weight_key L (printed_items (main L w a) ! m)"
    by (auto simp add: weight_key_def)
  with printed_feeds_sorted [of a w L] h mn show "m < n"
    by (blast intro: descending_index)
qed (simp_all add: source_weight_def Let_def)

lemma example_feeds_sources:
  "map item_source (printed_items (main example_lib example_world (example_args\<lparr>mode := Feeds\<rparr>)))
     = [Some (u ''Karpathy blog''), Some (u ''OpenAI''), Some (u ''Google arXiv picks''),
        Some (u ''Some blog''), Some (u ''https://arxiv.example/rss'')]"
  by (simp add: example_defs string_defs fetcher_defs)

lemma example_feeds_weights:
  "map (source_weight example_lib)
     (printed_items (main example_lib example_world (example_args\<lparr>mode := Feeds\<rparr>)))
     = [3, 2, 2, 1, 0]"
  by (simp add: example_defs string_defs fetcher_defs)


theorem feeds_ranking_witness:
  "contains (u ''karpathy'') (str_lower example_lib (or_empty (py_or
       (item_source (feed_item (Some (u ''https://karpathy.example/1''))
          (Some (u ''https://karpathy.example/1'')) (Some (u ''notes''))
          (Some (u ''2026-11-03T06:00:00+00:00'')) (Some (u ''Karpathy blog''))))
       (item_author (feed_item (Some (u ''https://karpathy.example/1''))
          (Some (u ''https://karpathy.example/1'')) (Some (u ''notes''))
          (Some (u ''2026-11-03T06:00:00+00:00'')) (Some (u ''Karpathy blog'')))))))
   \<and> source_weight example_lib (feed_item (Some (u ''https://karpathy.example/1''))
          (Some (u ''https://karpathy.example/1'')) (Some (u ''notes''))
          (Some (u ''2026-11-03T06:00:00+00:00'')) (Some (u ''Karpathy blog''))) = 3
   \<and> \<not> ((mode (example_args\<lparr>mode := Feeds\<rparr>) = Auto
          \<or> mode (example_args\<lparr>mode := Feeds\<rparr>) = Keywords)
        \<and> truthy (environ_X_BEARER_TOKEN example_world))
   \<and> mode (example_args\<lparr>mode := Feeds\<rparr>) \<noteq> Accounts
   \<and> map item_source
        (printed_items (main example_lib example_world (example_args\<lparr>mode := Feeds\<rparr>)))
       = [Some (u ''Karpathy blog''), Some (u ''OpenAI''), Some (u ''Google arXiv picks''),
          Some (u ''Some blog''), Some (u ''https://arxiv.example/rss'')]
   \<and> map (source_weight example_lib)
        (printed_items (main example_lib example_world (example_args\<lparr>mode := Feeds\<rparr>)))
       = [3, 2, 2, 1, 0]"
proof -
  have c: "contains (u ''karpathy'') (str_lower example_lib (or_empty (py_or
       (item_source (feed_item (Some (u ''https://karpathy.example/1''))
          (Some (u ''https://karpathy.example/1'')) (Some (u ''notes''))
          (Some (u ''2026-11-03T06:00:00+00:00'')) (Some (u ''Karpathy blog''))))
       (item_author (feed_item (Some (u ''https://karpathy.example/1''))
          (Some (u ''https://karpathy.example/1'')) (Some (u ''notes''))
          (Some (u ''2026-11-03T06:00:00+00:00'')) (Some (u ''Karpathy blog'')))))))"
    by (simp add: example_defs string_defs py_or_def)
  have p: "\<not> ((mode (example_args\<lparr>mode := Feeds\<rparr>) = Auto
          \<or> mode (example_args\<lparr>mode := Feeds\<rparr>) = Keywords)
        \<and> truthy (environ_X_BEARER_TOKEN example_world))
      \<and> mode (example_args\<lparr>mode := Feeds\<rparr>) \<noteq> Accounts"
    by simp
  from c feeds_ranking [where L = example_lib
      and i = "feed_item (Some (u ''https://karpathy.example/1''))
          (Some (u ''https://karpathy.example/1'')) (Some (u ''notes''))
          (Some (u ''2026-11-03T06:00:00+00:00'')) (Some (u ''Karpathy blog''))"]
  have "source_weight example_lib (feed_item (Some (u ''https://karpathy.example/1''))
          (Some (u ''https://karpathy.example/1'')) (Some (u ''notes''))
          (Some (u ''2026-11-03T06:00:00+00:00'')) (Some (u ''Karpathy blog''))) = 3"
    by blast
  with c p example_feeds_sources example_feeds_weights show ?thesis by blast
qed

text \<open>
  The claim as stated fails where a source matches two rules: the label
  "Google arXiv picks" contains "arxiv", yet its item has weight 2, not 0, and it is
  sorted before the item of an unweighted source with the same timestamp.
\<close>

theorem arxiv_official_source_counterexample:
  "contains (u ''arxiv'') (str_lower example_lib (u ''Google arXiv picks''))
   \<and> source_weight example_lib
        (feed_item (Some (u ''https://picks.example/1'')) (Some (u ''https://picks.example/1''))
           (Some (u ''picks'')) (Some (u ''2026-11-03T06:00:00+00:00''))
           (Some (u ''Google arXiv picks''))) = 2
   \<and> source_weight example_lib
        (feed_item (Some (u ''https://blog.example/1'')) (Some (u ''https://blog.example/1''))
           (Some (u ''post'')) (Some (u ''2026-11-03T06:00:00+00:00'')) (Some (u ''Some blog''))) = 1
   \<and> sort_reverse (weight_key example_lib)
        [feed_item (Some (u ''https://blog.example/1'')) (Some (u ''https://blog.example/1''))
           (Some (u ''post'')) (Some (u ''2026-11-03T06:00:00+00:00'')) (Some (u ''Some blog'')),
         feed_item (Some (u ''https://picks.example/1'')) (Some (u ''https://picks.example/1''))
           (Some (u ''picks'')) (Some (u ''2026-11-03T06:00:00+00:00''))
           (Some (u ''Google arXiv picks''))]
       = [feed_item (Some (u ''https://picks.example/1'')) (Some (u ''https://picks.example/1''))
           (Some (u ''picks'')) (Some (u ''2026-11-03T06:00:00+00:00''))
           (Some (u ''Google arXiv picks'')),
          feed_item (Some (u ''https://blog.example/1'')) (Some (u ''https://blog.example/1''))
           (Some (u ''post'')) (Some (u ''2026-11-03T06:00:00+00:00'')) (Some (u ''Some blog''))]
   \<and> map item_source
        (printed_items (main example_lib example_world (example_args\<lparr>mode := Feeds\<rparr>)))
       = [Some (u ''Karpathy blog''), Some (u ''OpenAI''), Some (u ''Google arXiv picks''),
          Some (u ''Some blog''), Some (u ''https://arxiv.example/rss'')]"
proof -
  have "contains (u ''arxiv'') (str_lower example_lib (u ''Google arXiv picks''))"
    by (simp add: example_defs string_defs)
  moreover have "source_weight example_lib
        (feed_item (Some (u ''https://picks.example/1'')) (Some (u ''https://picks.example/1''))
           (Some (u ''picks'')) (Some (u ''2026-11-03T06:00:00+00:00''))
           (Some (u ''Google arXiv picks''))) = 2"
    by (simp add: example_defs string_defs fetcher_defs)
  moreover have "source_weight example_lib
        (feed_item (Some (u ''https://blog.example/1'')) (Some (u ''https://blog.example/1''))
           (Some (u ''post'')) (Some (u ''2026-11-03T06:00:00+00:00'')) (Some (u ''Some blog''))) = 1"
    by (simp add: example_defs string_defs fetcher_defs)
  moreover have "sort_reverse (weight_key example_lib)
        [feed_item (Some (u ''https://blog.example/1'')) (Some (u ''https://blog.example/1''))
           (Some (u ''post'')) (Some (u ''2026-11-03T06:00:00+00:00'')) (Some (u ''Some blog'')),
         feed_item (Some (u ''https://picks.example/1'')) (Some (u ''https://picks.example/1''))
           (Some (u ''picks'')) (Some (u ''2026-11-03T06:00:00+00:00''))
           (Some (u ''Google arXiv picks''))]
       = [feed_item (Some (u ''https://picks.example/1'')) (Some (u ''https://picks.example/1''))
           (Some (u ''picks'')) (Some (u ''2026-11-03T06:00:00+00:00''))
           (Some (u ''Google arXiv picks'')),
          feed_item (Some (u ''https://blog.example/1'')) (Some (u ''https://blog.example/1''))
           (Some (u ''post'')) (Some (u ''2026-11-03T06:00:00+00:00'')) (Some (u ''Some blog''))]"
    by (simp add: example_defs string_defs fetcher_defs)
  ultimately show ?thesis using example_feeds_sources by blast
qed

section \<open>The time-window filter\<close>

lemma filter_since_loop_aware:
  assumes "\<forall>i \<in> set items. \<forall>t. truthy (item_created_at i) \<longrightarrow>
      fromisoformat L (replace (u ''Z'') (u ''+00:00'') (or_empty (item_created_at i)))
        \<noteq> Some (Naive t)"
  shows "filter_since_loop L cutoff filtered items
    = Inr (filtered @ filter (\<lambda>i. truthy (item_created_at i)
        \<and> (\<exists>t. fromisoformat L (replace (u ''Z'') (u ''+00:00'') (or_empty (item_created_at i)))
                  = Some (Aware t) \<and> cutoff \<le> t)) items)"
  using assms
proof (induction items arbitrary: filtered)
  case Nil
  show ?case by simp
next
  case (Cons i items)
  have rest: "\<And>acc. filter_since_loop L cutoff acc items
    = Inr (acc @ filter (\<lambda>i. truthy (item_created_at i)
        \<and> (\<exists>t. fromisoformat L (replace (u ''Z'') (u ''+00:00'') (or_empty (item_created_at i)))
                  = Some (Aware t) \<and> cutoff \<le> t)) items)"
    using Cons.IH Cons.prems by simp
  show ?case
  proof (cases "truthy (item_created_at i)")
    case False
    then show ?thesis by (simp add: rest)
  next
    case True
    show ?thesis
    proof (cases "fromisoformat L (replace (u ''Z'') (u ''+00:00'') (or_empty (item_created_at i)))")
      case None
      with True show ?thesis by (simp add: rest)
    next
      case (Some d)
      show ?thesis
      proof (cases d)
        case (Naive t)
        with Some True Cons.prems have False by simp
        then show ?thesis ..
      next
        case (Aware t)
        with Some True show ?thesis by (simp add: rest)
      qed
    qed
  qed
qed

text \<open>
  C4, as amended. Let the cutoff, now minus \<open>since_hours\<close> hours, be a representable
  datetime, and let no \<open>created_at\<close> of the list parse to an offset-naive datetime (the
  feed parsers only produce offset-aware UTC timestamps or none). Then the filter
  returns, in their order, exactly the items whose \<open>created_at\<close> is present, non-empty,
  parseable and at or after the cutoff; so every item whose \<open>created_at\<close> is missing,
  empty or not parseable is excluded.
\<close>

theorem filter_since_window:
  assumes "0 \<le> now - hours * 3600000000"
    and "now - hours * 3600000000 \<le> datetime_max"
    and "\<forall>i \<in> set items. \<forall>t. truthy (item_created_at i) \<longrightarrow>
      fromisoformat L (replace (u ''Z'') (u ''+00:00'') (or_empty (item_created_at i)))
        \<noteq> Some (Naive t)"
  shows "filter_since L now items hours
    = Inr (filter (\<lambda>i. truthy (item_created_at i)
        \<and> (\<exists>t. fromisoformat L (replace (u ''Z'') (u ''+00:00'') (or_empty (item_created_at i)))
                  = Some (Aware t) \<and> now - hours * 3600000000 \<le> t)) items)"
proof -
  from assms(1,2) have "minus_hours now hours = Inr (now - hours * 3600000000)"
    by (simp add: minus_hours_def Let_def)
  then show ?thesis
    using filter_since_loop_aware [OF assms(3), of "now - hours * 3600000000" "[]"]
    by (simp add: filter_since_def)
qed

theorem filter_since_window_witness:
  "(0::int) \<le> 63929304000000000 - 24 * 3600000000
   \<and> 63929304000000000 - 24 * 3600000000 \<le> datetime_max
   \<and> filter_since example_lib 63929304000000000
        [feed_item (Some [97]) None None (Some (u ''2026-11-03T06:00:00+00:00'')) None,
         feed_item (Some [98]) None None (Some (u ''2026-11-01T06:00:00+00:00'')) None,
         feed_item (Some [99]) None None None None,
         feed_item (Some [100]) None None (Some []) None,
         feed_item (Some [101]) None None (Some (u ''yesterday'')) None] 24
      = Inr [feed_item (Some [97]) None None (Some (u ''2026-11-03T06:00:00+00:00'')) None]"
proof -
  have a: "(0::int) \<le> 63929304000000000 - 24 * 3600000000" by simp
  have b: "(63929304000000000::int) - 24 * 3600000000 \<le> datetime_max"
    by (simp add: datetime_max_def)
  have c: "\<forall>i \<in> set
        [feed_item (Some [97]) None None (Some (u ''2026-11-03T06:00:00+00:00'')) None,
         feed_item (Some [98]) None None (Some (u ''2026-11-01T06:00:00+00:00'')) None,
         feed_item (Some [99]) None None None None,
         feed_item (Some [100]) None None (Some []) None,
         feed_item (Some [101]) None None (Some (u ''yesterday'')) None].
      \<forall>t. truthy (item_created_at i) \<longrightarrow>
        fromisoformat example_lib (replace (u ''Z'') (u ''+00:00'') (or_empty (item_created_at i)))
          \<noteq> Some (Naive t)"
    by (simp add: example_defs string_defs)
  from filter_since_window [OF a b c] a b show ?thesis
    by (simp add: example_defs string_defs)
qed

text \<open>
  The claim as stated fails in two ways. An item whose \<open>created_at\<close> parses, but to an
  offset-naive datetime, is neither retained nor dropped: comparing it with the cutoff
  raises \<open>TypeError\<close>. And not every \<open>since_hours\<close> gives a result: 100000000 hours
  before the clock of the examples is before year 1, so the filter raises
  \<open>OverflowError\<close>.
\<close>

theorem filter_since_counterexample:
  "fromisoformat example_lib (replace (u ''Z'') (u ''+00:00'') (u ''2026-11-03T06:00:00''))
     = Some (Naive 63929282400000000)
   \<and> filter_since example_lib 63929304000000000
        [feed_item (Some [97]) None None (Some (u ''2026-11-03T06:00:00'')) None] 24
      = Inl TypeError
   \<and> filter_since example_lib 63929304000000000
        [feed_item (Some [97]) None None None None] 100000000
      = Inl OverflowError"
  by (simp add: example_defs string_defs filter_since_def minus_hours_def datetime_max_def)

section \<open>The digest\<close>

text \<open>
  C8. The digest of an HTML body is its text with the tags removed, the entities
  unescaped and the surrounding whitespace stripped when that text has at most 80
  characters; otherwise it is the first 79 characters of that text followed by the
  ellipsis character. So the digest never has more than 80 characters.
\<close>

theorem digest_budget:
  "(length (strip (unescape L (remove_tags html))) \<le> 80
      \<longrightarrow> build_digest L html 80 = strip (unescape L (remove_tags html)))
   \<and> (80 < length (strip (unescape L (remove_tags html)))
      \<longrightarrow> build_digest L html 80 = take 79 (strip (unescape L (remove_tags html))) @ [8230])
   \<and> length (build_digest L html 80) \<le> 80"
  by (simp add: build_digest_def strip_tags_def slice_to_def ellipsis_def Let_def)

theorem digest_budget_witness:
  "length (strip (unescape example_lib (remove_tags (u ''<p>Hello <b>world</b> </p>'')))) \<le> 80
   \<and> build_digest example_lib (u ''<p>Hello <b>world</b> </p>'') 80 = u ''Hello world''
   \<and> 80 < length (strip (unescape example_lib (remove_tags
        (u ''<h1>0123456789</h1><p>0123456789012345678901234567890123456789012345678901234567890123456789abcdefghij</p>''))))
   \<and> build_digest example_lib
        (u ''<h1>0123456789</h1><p>0123456789012345678901234567890123456789012345678901234567890123456789abcdefghij</p>'') 80
       = u ''0123456789012345678901234567890123456789012345678901234567890123456789012345678'' @ [8230]"
proof -
  have short: "strip (unescape example_lib (remove_tags (u ''<p>Hello <b>world</b> </p>'')))
      = u ''Hello world''"
    by (simp add: example_lib_def string_defs)
  have long: "strip (unescape example_lib (remove_tags
        (u ''<h1>0123456789</h1><p>0123456789012345678901234567890123456789012345678901234567890123456789abcdefghij</p>'')))
      = u ''01234567890123456789012345678901234567890123456789012345678901234567890123456789abcdefghij''"
    by (simp add: example_lib_def string_defs)
  have l1: "length (strip (unescape example_lib (remove_tags (u ''<p>Hello <b>world</b> </p>'')))) \<le> 80"
    by (simp only: short) (simp add: u_def)
  have l2: "80 < length (strip (unescape example_lib (remove_tags
        (u ''<h1>0123456789</h1><p>0123456789012345678901234567890123456789012345678901234567890123456789abcdefghij</p>''))))"
    by (simp only: long) (simp add: u_def)
  from digest_budget [of example_lib "u ''<p>Hello <b>world</b> </p>''"] l1 short
  have d1: "build_digest example_lib (u ''<p>Hello <b>world</b> </p>'') 80 = u ''Hello world''"
    by simp
  from digest_budget [of example_lib
      "u ''<h1>0123456789</h1><p>0123456789012345678901234567890123456789012345678901234567890123456789abcdefghij</p>''"] l2
  have "build_digest example_lib
        (u ''<h1>0123456789</h1><p>0123456789012345678901234567890123456789012345678901234567890123456789abcdefghij</p>'') 80
       = take 79 (strip (unescape example_lib (remove_tags
        (u ''<h1>0123456789</h1><p>0123456789012345678901234567890123456789012345678901234567890123456789abcdefghij</p>'')))) @ [8230]"
    by blast
  then have d2: "build_digest example_lib
        (u ''<h1>0123456789</h1><p>0123456789012345678901234567890123456789012345678901234567890123456789abcdefghij</p>'') 80
       = u ''0123456789012345678901234567890123456789012345678901234567890123456789012345678'' @ [8230]"
    by (simp only: long) (simp add: u_def)
  from l1 d1 l2 d2 show ?thesis by blast
qed

end
